theory Spec2Isabelle
  imports Main
begin

section \<open>Strings and contract identifiers\<close>

text \<open>
  The repository names a contract by one string, \<^verbatim>\<open>"address.name"\<close>, and takes it apart
  with JavaScript's \<^verbatim>\<open>String.prototype.split\<close> and an array destructuring:
  \<^verbatim>\<open>const [contractAddress, contractName] = dexContract.split('.');\<close>
  (stacks-connect.js line 191; part_000 lines 52, 73, 114, 150-152, 177), or with two
  indexings, \<^verbatim>\<open>tokenIn.split('.')[0], tokenIn.split('.')[1]\<close> (stacks-connect.js lines
  208-209). A string is a list of characters here (for text beyond ASCII, the bytes of its
  UTF-8 form: none of the bytes of a longer character is the byte of \<^verbatim>\<open>'.'\<close>).
\<close>

text \<open>
  \<^verbatim>\<open>s.split(sep)\<close> for a one-character separator: the string is cut at every occurrence of
  the separator. The result is never empty: \<^verbatim>\<open>"".split('.')\<close> is \<^verbatim>\<open>[""]\<close>, and
  \<^verbatim>\<open>"a.".split('.')\<close> is \<^verbatim>\<open>["a", ""]\<close>.
\<close>

fun js_split :: "char \<Rightarrow> string \<Rightarrow> string list" where
  "js_split sep [] = [[]]"
| "js_split sep (c # cs) =
     (if c = sep then [] # js_split sep cs
      else (case js_split sep cs of [] \<Rightarrow> [[c]] | w # ws \<Rightarrow> (c # w) # ws))"

text \<open>
  \<^verbatim>\<open>arr[i]\<close>, and the \<open>i\<close>-th variable of a destructuring pattern: the element, or
  \<^verbatim>\<open>undefined\<close> (here \<open>None\<close>) past the end of the array. Nothing is raised.
\<close>

definition index :: "'a list \<Rightarrow> nat \<Rightarrow> 'a option" where
  "index arr i = (if i < length arr then Some (arr ! i) else None)"

text \<open>
  The parse of a contract identifier as the code writes it everywhere:
  \<^verbatim>\<open>const [address, name] = s.split('.')\<close>. Either part may be \<^verbatim>\<open>undefined\<close>.
\<close>

definition split_contract_id :: "string \<Rightarrow> string option \<times> string option" where
  "split_contract_id s = (let parts = js_split CHR ''.'' s in (index parts 0, index parts 1))"

text \<open>
  The parse the specification describes, for comparison with the code's: the string is
  cut at its first \<^verbatim>\<open>'.'\<close> only, and a string without one is a \<^verbatim>\<open>FormatError\<close>.
\<close>

datatype format_error = FormatError

definition spec_parse_contract_id :: "string \<Rightarrow> format_error + string \<times> string" where
  "spec_parse_contract_id s =
     (if CHR ''.'' \<in> set s
      then Inr (takeWhile (\<lambda>c. c \<noteq> CHR ''.'') s, tl (dropWhile (\<lambda>c. c \<noteq> CHR ''.'') s))
      else Inl FormatError)"

text \<open>Joining an address and a name with \<^verbatim>\<open>'.'\<close>; there is nothing to join when a part is
  \<^verbatim>\<open>undefined\<close>.\<close>

definition rejoin :: "string option \<times> string option \<Rightarrow> string option" where
  "rejoin parts =
     (case parts of
        (Some address, Some name) \<Rightarrow> Some (address @ ''.'' @ name)
      | _ \<Rightarrow> None)"

text \<open>
  A well-formed \<^verbatim>\<open>"address.name"\<close> string holds exactly one \<^verbatim>\<open>'.'\<close>, the separator: a
  Stacks address is c32 text (digits and capital letters) and a contract name is made of
  letters, digits, \<^verbatim>\<open>-\<close> and \<^verbatim>\<open>_\<close>. The two formats belong to the chain and are not
  checked anywhere in the repository; the single separator is all the parse depends on.
\<close>

definition single_separator :: "string \<Rightarrow> bool" where
  "single_separator s \<longleftrightarrow> count_list s CHR ''.'' = 1"

section \<open>The wrapped libraries, as the repository uses them\<close>

text \<open>
  \<^verbatim>\<open>@stacks/transactions\<close>, \<^verbatim>\<open>@stacks/network\<close> and \<^verbatim>\<open>@stacks/connect\<close> are not part of
  the repository. What the repository does with them is to choose the function and its
  arguments; which arguments a function refuses, and what it returns for the others, is
  the library's matter. So the library is a parameter of every function that calls it,
  and its functions return a value or raise.

  A JavaScript number is a value of a type \<open>'n\<close> that is left open. The repository never
  computes with a number: it hands it to the library or calls \<^verbatim>\<open>toString\<close> on it. An
  integer, a fraction, \<^verbatim>\<open>NaN\<close> or a number beyond the safe range is a number like any
  other here.
\<close>

text \<open>An error object has a \<^verbatim>\<open>name\<close>, by which a caller tells one kind of error from
  another, and a \<^verbatim>\<open>message\<close>. \<^verbatim>\<open>new Error(msg)\<close> is the generic kind: its name is
  \<^verbatim>\<open>"Error"\<close>. The repository defines no error class of its own.\<close>

record JsError =
  name :: string
  message :: string

definition Error :: "string \<Rightarrow> JsError" where
  "Error msg = \<lparr> name = ''Error'', message = msg \<rparr>"

definition RangeError :: "string \<Rightarrow> JsError" where
  "RangeError msg = \<lparr> name = ''RangeError'', message = msg \<rparr>"

text \<open>The values of the library, by the names of its types.\<close>

datatype 'n ClarityValue =
    UIntCV 'n
  | IntCV 'n
  | BufferCV string
  | StringAsciiCV string
  | StringUtf8CV string
  | StandardPrincipalCV string
  | ContractPrincipalCV string string

datatype FungibleConditionCode = Equal | Greater | GreaterEqual | Less | LessEqual

datatype PostConditionMode = Allow | Deny

datatype StacksNetwork = StacksMainnet | StacksTestnet

text \<open>A condition on the native asset (STX) that a principal sends: the principal, the
  comparator and the amount.\<close>

datatype 'n PostCondition = STXPostCondition string FungibleConditionCode 'n

text \<open>
  The functions of \<^verbatim>\<open>@stacks/transactions\<close> that the repository calls (it imports and
  exports more). An argument that comes out of \<open>split_contract_id\<close> may be \<^verbatim>\<open>undefined\<close>.
\<close>

record 'n StacksTransactions =
  uintCV :: "'n \<Rightarrow> JsError + 'n ClarityValue"
  stringAsciiCV :: "string \<Rightarrow> JsError + 'n ClarityValue"
  standardPrincipalCV :: "string \<Rightarrow> JsError + 'n ClarityValue"
  contractPrincipalCV :: "string option \<Rightarrow> string option \<Rightarrow> JsError + 'n ClarityValue"
  makeStandardSTXPostCondition ::
    "string \<Rightarrow> FungibleConditionCode \<Rightarrow> 'n \<Rightarrow> JsError + 'n PostCondition"

text \<open>\<^verbatim>\<open>clarityHelpers\<close> (stacks-connect.js lines 224-235), the members the flows use.\<close>

definition toUint :: "'n StacksTransactions \<Rightarrow> 'n \<Rightarrow> JsError + 'n ClarityValue" where
  "toUint lib v = uintCV lib v"

definition toAscii :: "'n StacksTransactions \<Rightarrow> string \<Rightarrow> JsError + 'n ClarityValue" where
  "toAscii lib v = stringAsciiCV lib v"

definition toPrincipal :: "'n StacksTransactions \<Rightarrow> string \<Rightarrow> JsError + 'n ClarityValue" where
  "toPrincipal lib address = standardPrincipalCV lib address"

definition toContract ::
  "'n StacksTransactions \<Rightarrow> string option \<Rightarrow> string option \<Rightarrow> JsError + 'n ClarityValue" where
  "toContract lib address name' = contractPrincipalCV lib address name'"

text \<open>The elements of an array literal are evaluated from left to right; the first one
  that raises ends the evaluation with its exception.\<close>

fun array_of :: "(JsError + 'a) list \<Rightarrow> JsError + 'a list" where
  "array_of [] = Inr []"
| "array_of (Inl e # later) = Inl e"
| "array_of (Inr x # later) =
     (case array_of later of Inl e \<Rightarrow> Inl e | Inr xs \<Rightarrow> Inr (x # xs))"


section \<open>JavaScript values, promises and callbacks\<close>

text \<open>A value that is a number or a string: the \<^verbatim>\<open>amount\<close> of \<^verbatim>\<open>transferSTX\<close>
  (\<^verbatim>\<open>@param {string|number}\<close>).\<close>

datatype 'n js_value = JSNumber 'n | JSString string

text \<open>\<^verbatim>\<open>v.toString()\<close>: a string is its own result, and a number is printed by
  \<^verbatim>\<open>Number.prototype.toString\<close>, a function of the language that is a parameter here.\<close>

fun toString :: "('n \<Rightarrow> string) \<Rightarrow> 'n js_value \<Rightarrow> string" where
  "toString number_toString (JSNumber x) = number_toString x"
| "toString number_toString (JSString s) = s"

text \<open>
  The decimal numeral of an integer: its digits, after a minus sign when it is negative.
  This is what \<^verbatim>\<open>Number.prototype.toString\<close> prints for the numbers that are safe
  integers, those between \<open>-(2^53 - 1)\<close> and \<open>2^53 - 1\<close>; for other numbers it prints other
  forms (a fraction, an exponent, \<^verbatim>\<open>NaN\<close>), of which nothing is said here.
\<close>

definition digit_char :: "nat \<Rightarrow> char" where
  "digit_char d = ''0123456789'' ! d"

fun decimal :: "nat \<Rightarrow> string" where
  "decimal n = (if n < 10 then [digit_char n] else decimal (n div 10) @ [digit_char (n mod 10)])"

declare decimal.simps [simp del]

definition integer_numeral :: "int \<Rightarrow> string" where
  "integer_numeral n = (if n < 0 then CHR ''-'' # decimal (nat (- n)) else decimal (nat n))"

definition safe_integer :: "int \<Rightarrow> bool" where
  "safe_integer n \<longleftrightarrow> - (2 ^ 53 - 1) \<le> n \<and> n \<le> 2 ^ 53 - 1"

definition prints_safe_integers :: "(int \<Rightarrow> string) \<Rightarrow> bool" where
  "prints_safe_integers number_toString \<longleftrightarrow>
     (\<forall>n. safe_integer n \<longrightarrow> number_toString n = integer_numeral n)"

text \<open>Reading a string of decimal digits back as a number, to say what a decimal
  numeral is.\<close>

definition is_digit :: "char \<Rightarrow> bool" where
  "is_digit c \<longleftrightarrow> (48::nat) \<le> of_char c \<and> of_char c \<le> (57::nat)"

definition digit_value :: "char \<Rightarrow> nat" where
  "digit_value c = of_char c - 48"

definition decimal_value :: "string \<Rightarrow> nat" where
  "decimal_value s = foldl (\<lambda>acc c. 10 * acc + digit_value c) 0 s"

datatype 'r promise = Pending | Resolved 'r | Rejected JsError

text \<open>
  A callback the caller hands in is any function: it may write to the console, and it
  returns or throws. Its result is the lines it logged (each the arguments of one
  \<^verbatim>\<open>console.log\<close>) and how it ended. The value a callback returns is dropped by every
  call site.
\<close>

datatype completion = Returns | Throws JsError

type_synonym 'a callback = "'a \<Rightarrow> string list list \<times> completion"

text \<open>\<^verbatim>\<open>param = dflt\<close> in a parameter list: the default stands in for \<^verbatim>\<open>undefined\<close>.\<close>

definition or_default :: "'a \<Rightarrow> 'a option \<Rightarrow> 'a" where
  "or_default dflt v = (case v of None \<Rightarrow> dflt | Some x \<Rightarrow> x)"


section \<open>What goes to the external agents, and what comes back\<close>

text \<open>The object the wallet passes to \<^verbatim>\<open>onFinish\<close> after a broadcast holds at least
  \<^verbatim>\<open>txId\<close> and \<^verbatim>\<open>txRaw\<close>; the outcome the gateway resolves with holds exactly these two.\<close>

record TransactionOutcome =
  txId :: string
  txRaw :: string

record FinishedTxData = TransactionOutcome +
  stacksTransaction :: string

text \<open>What \<^verbatim>\<open>data.userSession.loadUserData()\<close> returns after a wallet handshake: a profile
  with one address per network, and more that the repository never reads.\<close>

record StxAddress =
  mainnet :: string
  testnet :: string

record Profile =
  stxAddress :: StxAddress

record UserData =
  profile :: Profile
  appPrivateKey :: string

record ConnectionSession =
  userAddress :: string
  userData :: UserData

text \<open>The option objects handed to the libraries. The two handlers each of them also
  carries are the continuations of the calling function, modelled there.\<close>

record AppDetails =
  name :: string
  icon :: string

record ConnectOptions =
  appDetails :: AppDetails
  userSession :: "unit option"

record 'n ReadOnlyOptions =
  network :: StacksNetwork
  contractAddress :: "string option"
  contractName :: "string option"
  functionName :: string
  functionArgs :: "'n ClarityValue list"
  senderAddress :: string

record 'n ContractCallOptions =
  network :: StacksNetwork
  contractAddress :: "string option"
  contractName :: "string option"
  functionName :: string
  functionArgs :: "'n ClarityValue list"
  postConditions :: "'n PostCondition list"
  postConditionMode :: PostConditionMode

record 'n STXTransferOptions =
  network :: StacksNetwork
  recipient :: string
  amount :: "'n js_value"
  memo :: string

datatype 'n external_call =
    showConnect ConnectOptions
  | fetchCallReadOnlyFunction "'n ReadOnlyOptions"
  | openContractCall "'n ContractCallOptions"
  | openSTXTransfer "'n STXTransferOptions"

text \<open>
  The signing agent answers a request once, by calling \<^verbatim>\<open>onFinish(data)\<close> (it approved)
  or \<^verbatim>\<open>onCancel()\<close> (the user declined), or it has not answered yet. The query service
  answers with a value or fails. The library function that takes the request returns
  once called: an answer comes through the handlers, or through the awaited result of
  the query, and in no other way.
\<close>

datatype 'd signal = Approved 'd | Cancelled


text \<open>
  What a call does, in order: the external operations it issues, the caller's callbacks
  it invokes, the console lines written (\<^verbatim>\<open>console.log\<close> of strings, \<^verbatim>\<open>console.log\<close> of a
  label and a value, \<^verbatim>\<open>console.error\<close>), and the settlement of the promise it returned.
  A run ends with the state of that promise and, when a callback threw, the exception
  that left the handler towards the agent that called it.
\<close>

datatype callback_call = onFinish_call FinishedTxData | onCancel_call

datatype ('n, 'r) event =
    Issued "'n external_call"
  | Invoked callback_call
  | Logged "string list"
  | LoggedValue string "'n ClarityValue"
  | LoggedError "string list"
  | Settled "'r promise"

record ('n, 'r) run =
  trace :: "('n, 'r) event list"
  promise :: "'r promise"
  escaped :: "JsError option"

definition issued :: "('n, 'r) event list \<Rightarrow> 'n external_call list" where
  "issued tr = concat (map (\<lambda>e. case e of Issued c \<Rightarrow> [c] | _ \<Rightarrow> []) tr)"

text \<open>\<^verbatim>\<open>if (cb) cb(x);\<close> --- nothing happens when no callback was supplied.\<close>

definition call_if_supplied ::
  "'a callback option \<Rightarrow> 'a \<Rightarrow> callback_call \<Rightarrow> ('n, 'r) event list \<times> JsError option" where
  "call_if_supplied cb x c =
     (case cb of
        None \<Rightarrow> ([], None)
      | Some f \<Rightarrow>
          (Invoked c # map Logged (fst (f x)),
           (case snd (f x) of Returns \<Rightarrow> None | Throws e \<Rightarrow> Some e)))"

text \<open>
  A handler body \<^verbatim>\<open>if (cb) cb(x); settle(v);\<close> --- the settlement is the statement after
  the callback, so it is reached only when the callback returned.
\<close>

definition then_settle ::
  "('n, 'r) event list \<Rightarrow> ('n, 'r) event list \<times> JsError option \<Rightarrow> 'r promise \<Rightarrow>
     ('n, 'r) run" where
  "then_settle earlier cb settled =
     (case snd cb of
        None \<Rightarrow>
          \<lparr> trace = earlier @ fst cb @ [Settled settled], promise = settled, escaped = None \<rparr>
      | Some e \<Rightarrow>
          \<lparr> trace = earlier @ fst cb, promise = Pending, escaped = Some e \<rparr>)"

text \<open>The promise is still pending while the agent has not answered.\<close>

definition awaiting :: "('n, 'r) event list \<Rightarrow> ('n, 'r) run" where
  "awaiting earlier = \<lparr> trace = earlier, promise = Pending, escaped = None \<rparr>"

text \<open>An exception raised in the body of an \<^verbatim>\<open>async\<close> function, before anything else
  happened: the promise the function returns is rejected with it.\<close>

definition thrown :: "JsError \<Rightarrow> ('n, 'r) run" where
  "thrown e = \<lparr> trace = [Settled (Rejected e)], promise = Rejected e, escaped = None \<rparr>"


section \<open>The gateway functions (stacks-connect.js)\<close>

text \<open>The parameter objects, field by field as the functions destructure them. A field
  with a default is optional; \<open>None\<close> is a field the caller left out. Where a function
  below binds a local variable whose name is also a field name, the variable is primed
  (\<open>contractAddress'\<close>) or shortened (\<open>userAddr\<close>, \<open>amt\<close>).\<close>

record ConnectParams =
  appName :: "string option"
  appIconUrl :: "string option"

record 'n ReadOnlyParams =
  contractAddress :: "string option"
  contractName :: "string option"
  functionName :: string
  functionArgs :: "'n ClarityValue list option"
  senderAddress :: string
  testnet :: "bool option"

text \<open>\<^verbatim>\<open>executeContractCall\<close> binds eight fields of its argument. A caller may put more
  into the object: \<^verbatim>\<open>openVault\<close> passes a \<^verbatim>\<open>postConditionMode\<close> (part_000 line 95), which
  the destructuring pattern does not bind.\<close>

record 'n CallParams =
  contractAddress :: "string option"
  contractName :: "string option"
  functionName :: string
  functionArgs :: "'n ClarityValue list option"
  postConditions :: "'n PostCondition list option"
  testnet :: "bool option"
  onFinish :: "FinishedTxData callback option"
  onCancel :: "unit callback option"
  postConditionMode :: "PostConditionMode option"

record 'n TransferParams =
  recipient :: string
  amount :: "'n js_value"
  memo :: "string option"
  testnet :: "bool option"
  onFinish :: "FinishedTxData callback option"
  onCancel :: "unit callback option"

text \<open>\<^verbatim>\<open>const network = testnet ? new StacksTestnet() : new StacksMainnet();\<close> with the
  default \<^verbatim>\<open>testnet = false\<close>.\<close>

definition select_network :: "bool option \<Rightarrow> StacksNetwork" where
  "select_network flag = (if or_default False flag then StacksTestnet else StacksMainnet)"

text \<open>\<^verbatim>\<open>connectWallet\<close>, stacks-connect.js lines 35-57.\<close>

definition connectOptions :: "ConnectParams \<Rightarrow> ConnectOptions" where
  "connectOptions cfg =
     \<lparr> appDetails =
         \<lparr> AppDetails.name = or_default ''DefiLlama Adapter'' (appName cfg),
           icon = or_default ''https://defillama.com/favicon.ico'' (appIconUrl cfg) \<rparr>,
       userSession = None \<rparr>"

definition connectWallet ::
  "ConnectParams \<Rightarrow> UserData signal option \<Rightarrow> ('n, ConnectionSession) run" where
  "connectWallet cfg agent =
     (let shown = [Issued (showConnect (connectOptions cfg))] in
      case agent of
        None \<Rightarrow> awaiting shown
      | Some (Approved loaded) \<Rightarrow>
          then_settle shown ([], None)
            (Resolved
              \<lparr> userAddress = mainnet (stxAddress (profile loaded)), userData = loaded \<rparr>)
      | Some Cancelled \<Rightarrow>
          then_settle shown ([], None) (Rejected (Error ''User cancelled wallet connection'')))"



text \<open>\<^verbatim>\<open>executeContractCall\<close>, stacks-connect.js lines 104-138. The mode is the literal
  \<^verbatim>\<open>PostConditionMode.Deny\<close> of line 124.\<close>

definition contractCallOptions :: "'n CallParams \<Rightarrow> 'n ContractCallOptions" where
  "contractCallOptions p =
     \<lparr> ContractCallOptions.network = select_network (CallParams.testnet p),
       ContractCallOptions.contractAddress = CallParams.contractAddress p,
       ContractCallOptions.contractName = CallParams.contractName p,
       ContractCallOptions.functionName = CallParams.functionName p,
       ContractCallOptions.functionArgs = or_default [] (CallParams.functionArgs p),
       ContractCallOptions.postConditions = or_default [] (CallParams.postConditions p),
       ContractCallOptions.postConditionMode = Deny \<rparr>"

definition executeContractCall ::
  "'n CallParams \<Rightarrow> FinishedTxData signal option \<Rightarrow> ('n, TransactionOutcome) run" where
  "executeContractCall p agent =
     (let opened = [Issued (openContractCall (contractCallOptions p))] in
      case agent of
        None \<Rightarrow> awaiting opened
      | Some (Approved data) \<Rightarrow>
          then_settle opened
            (call_if_supplied (CallParams.onFinish p) data (onFinish_call data))
            (Resolved \<lparr> txId = txId data, txRaw = txRaw data \<rparr>)
      | Some Cancelled \<Rightarrow>
          then_settle opened
            (call_if_supplied (CallParams.onCancel p) () onCancel_call)
            (Rejected (Error ''User cancelled transaction'')))"

text \<open>\<^verbatim>\<open>transferSTX\<close>, stacks-connect.js lines 148-177. Its first argument here is the
  language's \<^verbatim>\<open>Number.prototype.toString\<close>.\<close>

definition transferOptions ::
  "('n \<Rightarrow> string) \<Rightarrow> 'n TransferParams \<Rightarrow> 'n STXTransferOptions" where
  "transferOptions number_toString p =
     \<lparr> STXTransferOptions.network = select_network (TransferParams.testnet p),
       STXTransferOptions.recipient = TransferParams.recipient p,
       STXTransferOptions.amount =
         JSString (toString number_toString (TransferParams.amount p)),
       STXTransferOptions.memo = or_default [] (TransferParams.memo p) \<rparr>"

definition transferSTX ::
  "('n \<Rightarrow> string) \<Rightarrow> 'n TransferParams \<Rightarrow> FinishedTxData signal option \<Rightarrow>
     ('n, TransactionOutcome) run" where
  "transferSTX number_toString p agent =
     (let opened = [Issued (openSTXTransfer (transferOptions number_toString p))] in
      case agent of
        None \<Rightarrow> awaiting opened
      | Some (Approved data) \<Rightarrow>
          then_settle opened
            (call_if_supplied (TransferParams.onFinish p) data (onFinish_call data))
            (Resolved \<lparr> txId = txId data, txRaw = txRaw data \<rparr>)
      | Some Cancelled \<Rightarrow>
          then_settle opened
            (call_if_supplied (TransferParams.onCancel p) () onCancel_call)
            (Rejected (Error ''User cancelled STX transfer'')))"


text \<open>
  A flow evaluates the argument object of its call first; a library function that raises
  there ends the flow before anything is issued. The functions \<open>\<dots>_call\<close> below are
  these argument objects, in the order the source evaluates them.
\<close>

text \<open>\<^verbatim>\<open>exampleSwapTokens\<close>, stacks-connect.js lines 183-221.\<close>

definition exampleSwapTokens_call ::
  "'n StacksTransactions \<Rightarrow> string \<Rightarrow> string \<Rightarrow> string \<Rightarrow> 'n \<Rightarrow> 'n \<Rightarrow> string \<Rightarrow>
     JsError + 'n CallParams" where
  "exampleSwapTokens_call lib dexContract tokenIn tokenOut amountIn minAmountOut userAddr =
     (let (contractAddress', contractName') = split_contract_id dexContract in
      case makeStandardSTXPostCondition lib userAddr LessEqual amountIn of
        Inl e \<Rightarrow> Inl e
      | Inr condition \<Rightarrow>
          (case array_of
                  [contractPrincipalCV lib (index (js_split CHR ''.'' tokenIn) 0)
                     (index (js_split CHR ''.'' tokenIn) 1),
                   contractPrincipalCV lib (index (js_split CHR ''.'' tokenOut) 0)
                     (index (js_split CHR ''.'' tokenOut) 1),
                   uintCV lib amountIn,
                   uintCV lib minAmountOut] of
             Inl e \<Rightarrow> Inl e
           | Inr args \<Rightarrow>
               Inr \<lparr> CallParams.contractAddress = contractAddress',
                     CallParams.contractName = contractName',
                     CallParams.functionName = ''swap'',
                     CallParams.functionArgs = Some args,
                     CallParams.postConditions = Some [condition],
                     CallParams.testnet = None,
                     CallParams.onFinish = Some
                       (\<lambda>data. ([[''Swap successful!'', txId data]], Returns)),
                     CallParams.onCancel = Some (\<lambda>_. ([[''Swap cancelled by user'']], Returns)),
                     CallParams.postConditionMode = None \<rparr>))"

definition exampleSwapTokens ::
  "'n StacksTransactions \<Rightarrow> string \<Rightarrow> string \<Rightarrow> string \<Rightarrow> 'n \<Rightarrow> 'n \<Rightarrow> string \<Rightarrow>
     FinishedTxData signal option \<Rightarrow> ('n, TransactionOutcome) run" where
  "exampleSwapTokens lib dexContract tokenIn tokenOut amountIn minAmountOut userAddr agent =
     (case exampleSwapTokens_call lib dexContract tokenIn tokenOut amountIn minAmountOut userAddr of
        Inl e \<Rightarrow> thrown e
      | Inr p \<Rightarrow> executeContractCall p agent)"


section \<open>The domain flows (part_000, the Arkadiko integration)\<close>

text \<open>Left out is \<^verbatim>\<open>tvl\<close>, which hands over to \<^verbatim>\<open>sumTokens\<close> of a helper module that the
  repository's files here do not hold.\<close>

text \<open>\<^verbatim>\<open>ARKADIKO_CONTRACTS\<close>, the entries the flows read (\<^verbatim>\<open>ARKADIKO_CONTRACTS.swap\<close>
  is \<open>ARKADIKO_swap\<close>).\<close>

definition ARKADIKO_vaultsManager :: string where
  "ARKADIKO_vaultsManager = ''SP2C2YFP12AJZB4MABJBAJ55XECVS7E4PMMZ89YZR.arkadiko-freddie-v1-1''"

definition ARKADIKO_swap :: string where
  "ARKADIKO_swap = ''SP2C2YFP12AJZB4MABJBAJ55XECVS7E4PMMZ89YZR.arkadiko-swap-v2-1''"




text \<open>\<^verbatim>\<open>openVault({ collateralAmount, debtAmount, userAddress })\<close>, lines 72-104.\<close>

definition openVault_call ::
  "'n StacksTransactions \<Rightarrow> 'n \<Rightarrow> 'n \<Rightarrow> string \<Rightarrow> JsError + 'n CallParams" where
  "openVault_call lib collateralAmount debtAmount userAddr =
     (let (contractAddress', contractName') = split_contract_id ARKADIKO_vaultsManager in
      case makeStandardSTXPostCondition lib userAddr LessEqual collateralAmount of
        Inl e \<Rightarrow> Inl e
      | Inr condition \<Rightarrow>
          (case array_of
                  [toUint lib collateralAmount,
                   toUint lib debtAmount,
                   toAscii lib ''STX-A'',
                   toPrincipal lib userAddr] of
             Inl e \<Rightarrow> Inl e
           | Inr args \<Rightarrow>
               Inr \<lparr> CallParams.contractAddress = contractAddress',
                     CallParams.contractName = contractName',
                     CallParams.functionName = ''collateralize-and-mint'',
                     CallParams.functionArgs = Some args,
                     CallParams.postConditions = Some [condition],
                     CallParams.testnet = None,
                     CallParams.onFinish = Some
                       (\<lambda>data. ([[''Vault opened successfully! TX ID:'', txId data]], Returns)),
                     CallParams.onCancel = Some
                       (\<lambda>_. ([[''Vault opening cancelled by user'']], Returns)),
                     CallParams.postConditionMode = Some Deny \<rparr>))"

definition openVault ::
  "'n StacksTransactions \<Rightarrow> 'n \<Rightarrow> 'n \<Rightarrow> string \<Rightarrow> FinishedTxData signal option \<Rightarrow>
     ('n, TransactionOutcome) run" where
  "openVault lib collateralAmount debtAmount userAddr agent =
     (case openVault_call lib collateralAmount debtAmount userAddr of
        Inl e \<Rightarrow> thrown e
      | Inr p \<Rightarrow> executeContractCall p agent)"

text \<open>\<^verbatim>\<open>depositCollateral({ vaultId, amount, userAddress })\<close>, lines 113-138.\<close>

definition depositCollateral_call ::
  "'n StacksTransactions \<Rightarrow> 'n \<Rightarrow> 'n \<Rightarrow> string \<Rightarrow> JsError + 'n CallParams" where
  "depositCollateral_call lib vaultId amt userAddr =
     (let (contractAddress', contractName') = split_contract_id ARKADIKO_vaultsManager in
      case makeStandardSTXPostCondition lib userAddr Equal amt of
        Inl e \<Rightarrow> Inl e
      | Inr condition \<Rightarrow>
          (case array_of [toUint lib vaultId, toUint lib amt] of
             Inl e \<Rightarrow> Inl e
           | Inr args \<Rightarrow>
               Inr \<lparr> CallParams.contractAddress = contractAddress',
                     CallParams.contractName = contractName',
                     CallParams.functionName = ''deposit'',
                     CallParams.functionArgs = Some args,
                     CallParams.postConditions = Some [condition],
                     CallParams.testnet = None,
                     CallParams.onFinish = Some
                       (\<lambda>data. ([[''Collateral deposited! TX ID:'', txId data]], Returns)),
                     CallParams.onCancel = None,
                     CallParams.postConditionMode = None \<rparr>))"

definition depositCollateral ::
  "'n StacksTransactions \<Rightarrow> 'n \<Rightarrow> 'n \<Rightarrow> string \<Rightarrow> FinishedTxData signal option \<Rightarrow>
     ('n, TransactionOutcome) run" where
  "depositCollateral lib vaultId amt userAddr agent =
     (case depositCollateral_call lib vaultId amt userAddr of
        Inl e \<Rightarrow> thrown e
      | Inr p \<Rightarrow> executeContractCall p agent)"

text \<open>\<^verbatim>\<open>swapTokens({ tokenX, tokenY, amountIn, minAmountOut, userAddress })\<close>, lines
  149-170. The list of post-conditions is the empty literal of line 164, which the source
  annotates \<^verbatim>\<open>// Add appropriate token post-conditions\<close>; \<^verbatim>\<open>userAddress\<close> is not used.\<close>

definition swapTokens_call ::
  "'n StacksTransactions \<Rightarrow> string \<Rightarrow> string \<Rightarrow> 'n \<Rightarrow> 'n \<Rightarrow> string \<Rightarrow>
     JsError + 'n CallParams" where
  "swapTokens_call lib tokenX tokenY amountIn minAmountOut userAddr =
     (let (contractAddress', contractName') = split_contract_id ARKADIKO_swap;
          (tokenXAddress, tokenXName) = split_contract_id tokenX;
          (tokenYAddress, tokenYName) = split_contract_id tokenY
      in case array_of
                [toContract lib tokenXAddress tokenXName,
                 toContract lib tokenYAddress tokenYName,
                 toUint lib amountIn,
                 toUint lib minAmountOut] of
           Inl e \<Rightarrow> Inl e
         | Inr args \<Rightarrow>
             Inr \<lparr> CallParams.contractAddress = contractAddress',
                   CallParams.contractName = contractName',
                   CallParams.functionName = ''swap-x-for-y'',
                   CallParams.functionArgs = Some args,
                   CallParams.postConditions = Some [],
                   CallParams.testnet = None,
                   CallParams.onFinish = Some
                     (\<lambda>data. ([[''Swap executed! TX ID:'', txId data]], Returns)),
                   CallParams.onCancel = None,
                   CallParams.postConditionMode = None \<rparr>)"

definition swapTokens ::
  "'n StacksTransactions \<Rightarrow> string \<Rightarrow> string \<Rightarrow> 'n \<Rightarrow> 'n \<Rightarrow> string \<Rightarrow>
     FinishedTxData signal option \<Rightarrow> ('n, TransactionOutcome) run" where
  "swapTokens lib tokenX tokenY amountIn minAmountOut userAddr agent =
     (case swapTokens_call lib tokenX tokenY amountIn minAmountOut userAddr of
        Inl e \<Rightarrow> thrown e
      | Inr p \<Rightarrow> executeContractCall p agent)"











section \<open>Notions the properties are stated with\<close>

text \<open>The post-conditions of a request; only a contract call carries any.\<close>

fun post_conditions_of :: "'n external_call \<Rightarrow> 'n PostCondition list" where
  "post_conditions_of (openContractCall opts) = ContractCallOptions.postConditions opts"
| "post_conditions_of _ = []"

text \<open>A callback, when one was supplied, returns from the call with argument \<open>x\<close>.\<close>

definition returns_normally :: "'a callback option \<Rightarrow> 'a \<Rightarrow> bool" where
  "returns_normally cb x = (case cb of None \<Rightarrow> True | Some f \<Rightarrow> snd (f x) = Returns)"

text \<open>The settlements a trace records, in order.\<close>

definition settlements :: "('n, 'r) event list \<Rightarrow> 'r promise list" where
  "settlements tr = concat (map (\<lambda>e. case e of Settled s \<Rightarrow> [s] | _ \<Rightarrow> []) tr)"




text \<open>The address of the session's user on a given network, as the specification's
  \<^verbatim>\<open>ConnectionSession\<close> words it (``userAddress: string per selected network'').\<close>

definition address_on :: "StacksNetwork \<Rightarrow> UserData \<Rightarrow> string" where
  "address_on net loaded =
     (case net of
        StacksMainnet \<Rightarrow> mainnet (stxAddress (profile loaded))
      | StacksTestnet \<Rightarrow> StxAddress.testnet (stxAddress (profile loaded)))"



section \<open>Concrete inputs\<close>

text \<open>
  A library to run the flows with, on integers. It refuses an integer that is negative
  or beyond the safe range as an unsigned value, an address that is not an \<^verbatim>\<open>S\<close> followed
  by letters of the c32 alphabet (the checksum of an address is not computed), and a
  contract whose address or name is \<^verbatim>\<open>undefined\<close>; what it accepts it wraps. It stands for
  no more than a library that behaves so on the inputs below.
\<close>

definition c32_text :: "string \<Rightarrow> bool" where
  "c32_text a \<longleftrightarrow>
     (case a of
        [] \<Rightarrow> False
      | c # cs \<Rightarrow> c = CHR ''S'' \<and> list_all (\<lambda>x. x \<in> set ''0123456789ABCDEFGHJKMNPQRSTVWXYZ'') cs)"

definition example_library :: "int StacksTransactions" where
  "example_library =
     \<lparr> uintCV = (\<lambda>n. if 0 \<le> n \<and> n \<le> 2 ^ 53 - 1 then Inr (UIntCV n)
                     else Inl (RangeError ''Cannot construct unsigned clarity integer'')),
       stringAsciiCV = (\<lambda>s. Inr (StringAsciiCV s)),
       standardPrincipalCV = (\<lambda>a. if c32_text a then Inr (StandardPrincipalCV a)
                     else Inl (Error ''Invalid c32 address'')),
       contractPrincipalCV = (\<lambda>a n.
          case (a, n) of
            (Some address, Some name') \<Rightarrow>
              if c32_text address \<and> name' \<noteq> [] then Inr (ContractPrincipalCV address name')
              else Inl (Error ''Invalid c32 address'')
          | _ \<Rightarrow> Inl (Error ''Invalid contract principal'')),
       makeStandardSTXPostCondition = (\<lambda>a code n.
          if c32_text a then Inr (STXPostCondition a code n)
          else Inl (Error ''Invalid c32 address'')) \<rparr>"

definition example_address :: string where
  "example_address = ''SP2C2YFP12AJZB4MABJBAJ55XECVS7E4PMMZ89YZR''"

text \<open>Callbacks: one that throws, the \<^verbatim>\<open>onFinish\<close> of \<^verbatim>\<open>exampleSwapTokens\<close>, which
  writes one line, and the \<^verbatim>\<open>onCancel\<close> of \<^verbatim>\<open>openVault\<close>, which writes one line too.\<close>

definition throwing_callback :: "'a callback" where
  "throwing_callback = (\<lambda>_. ([], Throws (Error ''callback failed'')))"



definition example_data :: FinishedTxData where
  "example_data = \<lparr> txId = ''0x5e1f'', txRaw = ''80800000'', stacksTransaction = [] \<rparr>"

definition example_user :: UserData where
  "example_user =
     \<lparr> profile = \<lparr> stxAddress =
         \<lparr> mainnet = ''SP2C2YFP12AJZB4MABJBAJ55XECVS7E4PMMZ89YZR'',
           StxAddress.testnet = ''ST2C2YFP12AJZB4MABJBAJ55XECVS7E4PMS0SFXS9'' \<rparr> \<rparr>,
       appPrivateKey = ''5f2c'' \<rparr>"

definition default_config :: ConnectParams where
  "default_config = \<lparr> appName = None, appIconUrl = None \<rparr>"

text \<open>A deposit call written out by hand: no callbacks, and a caller who asks for the
  mode \<open>Allow\<close>.\<close>

definition example_call :: "int CallParams" where
  "example_call =
     \<lparr> CallParams.contractAddress = Some ''SP2C2YFP12AJZB4MABJBAJ55XECVS7E4PMMZ89YZR'',
       CallParams.contractName = Some ''arkadiko-freddie-v1-1'',
       CallParams.functionName = ''deposit'',
       CallParams.functionArgs = Some [UIntCV 1, UIntCV 1000],
       CallParams.postConditions = None,
       CallParams.testnet = Some True,
       CallParams.onFinish = None,
       CallParams.onCancel = None,
       CallParams.postConditionMode = Some Allow \<rparr>"

text \<open>Three transfers: of a number, of a negative number and of a string.\<close>

definition example_transfer :: "int TransferParams" where
  "example_transfer =
     \<lparr> TransferParams.recipient = ''SP2C2YFP12AJZB4MABJBAJ55XECVS7E4PMMZ89YZR'',
       TransferParams.amount = JSNumber 2500000,
       TransferParams.memo = None,
       TransferParams.testnet = None,
       TransferParams.onFinish = None,
       TransferParams.onCancel = None \<rparr>"

definition negative_transfer :: "int TransferParams" where
  "negative_transfer = example_transfer\<lparr> TransferParams.amount := JSNumber (- 42) \<rparr>"

definition string_transfer :: "int TransferParams" where
  "string_transfer = example_transfer\<lparr> TransferParams.amount := JSString ''0x1f'' \<rparr>"



definition call_with_throwing_onCancel :: "int CallParams" where
  "call_with_throwing_onCancel = example_call\<lparr> CallParams.onCancel := Some throwing_callback \<rparr>"






section \<open>Parsing contract identifiers\<close>

lemma js_split_not_Nil: "js_split sep s \<noteq> []"
  by (induction s) (auto split: list.splits)

lemma js_split_no_sep: "sep \<notin> set s \<Longrightarrow> js_split sep s = [s]"
  by (induction s) auto

lemma js_split_at_first:
  "js_split sep s =
     takeWhile (\<lambda>c. c \<noteq> sep) s #
       (case dropWhile (\<lambda>c. c \<noteq> sep) s of [] \<Rightarrow> [] | _ # rest \<Rightarrow> js_split sep rest)"
proof (induction s)
  case Nil
  show ?case by simp
next
  case (Cons c cs)
  show ?case
  proof (cases "c = sep")
    case True
    then show ?thesis by simp
  next
    case False
    with Cons show ?thesis by simp
  qed
qed

lemma dropWhile_member:
  "x \<in> set s \<Longrightarrow> \<exists>rest. dropWhile (\<lambda>c. c \<noteq> x) s = x # rest"
  by (induction s) (auto split: if_splits)

lemma count_list_zero_iff: "count_list s x = 0 \<longleftrightarrow> x \<notin> set s"
  by (induction s) auto

lemma count_list_takeWhile_neq: "count_list (takeWhile (\<lambda>c. c \<noteq> x) s) x = 0"
  by (simp add: count_list_zero_iff) (metis (mono_tags, lifting) set_takeWhileD)

lemma js_split_single:
  assumes "count_list s sep = 1"
  shows "\<exists>a n. js_split sep s = [a, n] \<and> a @ sep # n = s"
proof -
  have mem: "sep \<in> set s" using assms count_list_zero_iff[of s sep] by auto
  then obtain rest where d: "dropWhile (\<lambda>c. c \<noteq> sep) s = sep # rest"
    using dropWhile_member by fastforce
  have s: "s = takeWhile (\<lambda>c. c \<noteq> sep) s @ sep # rest"
    using takeWhile_dropWhile_id[of "\<lambda>c. c \<noteq> sep" s] d by simp
  have "count_list s sep = count_list (takeWhile (\<lambda>c. c \<noteq> sep) s) sep + 1 + count_list rest sep"
    by (subst s) simp
  then have "count_list rest sep = 0" using assms count_list_takeWhile_neq[of sep s] by simp
  then have "sep \<notin> set rest" by (simp add: count_list_zero_iff)
  then have "js_split sep rest = [rest]" by (rule js_split_no_sep)
  then have "js_split sep s = [takeWhile (\<lambda>c. c \<noteq> sep) s, rest]"
    using js_split_at_first[of sep s] d by simp
  with s show ?thesis by metis
qed

lemma index_second:
  "index (js_split sep s) 1 =
     (if sep \<in> set s
      then Some (takeWhile (\<lambda>c. c \<noteq> sep) (tl (dropWhile (\<lambda>c. c \<noteq> sep) s)))
      else None)"
proof (cases "sep \<in> set s")
  case False
  then show ?thesis by (simp add: js_split_no_sep index_def)
next
  case True
  then obtain rest where d: "dropWhile (\<lambda>c. c \<noteq> sep) s = sep # rest"
    using dropWhile_member by fastforce
  have "js_split sep s = takeWhile (\<lambda>c. c \<noteq> sep) s # js_split sep rest"
    using js_split_at_first[of sep s] d by simp
  moreover have "js_split sep rest =
      takeWhile (\<lambda>c. c \<noteq> sep) rest #
       (case dropWhile (\<lambda>c. c \<noteq> sep) rest of [] \<Rightarrow> [] | _ # r \<Rightarrow> js_split sep r)"
    by (rule js_split_at_first)
  ultimately show ?thesis using True d by (simp add: index_def)
qed


text \<open>
  The parse of the code against the parse of the specification. On a string with two
  dots the code keeps the piece between the first and the second dot as the name, where
  the specification cuts at the first dot only; on a string without a dot the code
  returns the whole string as the address and \<^verbatim>\<open>undefined\<close> as the name, where the
  specification has a \<^verbatim>\<open>FormatError\<close>.
\<close>

theorem parse_differs_from_spec:
  "split_contract_id ''SP2C.usda-token.v2'' = (Some ''SP2C'', Some ''usda-token'') \<and>
   spec_parse_contract_id ''SP2C.usda-token.v2'' = Inr (''SP2C'', ''usda-token.v2'') \<and>
   split_contract_id ''usda-token'' = (Some ''usda-token'', None) \<and>
   spec_parse_contract_id ''usda-token'' = Inl FormatError"
  by (simp add: split_contract_id_def spec_parse_contract_id_def index_def)

text \<open>
  C4, as the code has it. For every string the parse returns, and raises nothing: the
  address is the text before the first \<^verbatim>\<open>'.'\<close> (all of the string when it has none), and
  the name is the text between the first \<^verbatim>\<open>'.'\<close> and the second (up to the end when
  there is no second one), or \<^verbatim>\<open>undefined\<close> when the string has no \<^verbatim>\<open>'.'\<close>.
\<close>

theorem split_contract_id_parts:
  "fst (split_contract_id s) = Some (takeWhile (\<lambda>c. c \<noteq> CHR ''.'') s) \<and>
   snd (split_contract_id s) =
     (if CHR ''.'' \<in> set s
      then Some (takeWhile (\<lambda>c. c \<noteq> CHR ''.'') (tl (dropWhile (\<lambda>c. c \<noteq> CHR ''.'') s)))
      else None)"
proof -
  have "index (js_split CHR ''.'' s) 0 = Some (takeWhile (\<lambda>c. c \<noteq> CHR ''.'') s)"
    by (subst js_split_at_first) (simp add: index_def)
  then show ?thesis
    using index_second [of "CHR ''.''" s] by (simp add: split_contract_id_def Let_def)
qed

theorem split_contract_id_parts_witness:
  "fst (split_contract_id ''SP2C.usda-token.v2'') = Some ''SP2C'' \<and>
   snd (split_contract_id ''SP2C.usda-token.v2'') = Some ''usda-token'' \<and>
   snd (split_contract_id ''SP2C'') = None"
  using split_contract_id_parts [of "''SP2C.usda-token.v2''"] split_contract_id_parts [of "''SP2C''"]
  by simp

text \<open>
  C5. For every \<^verbatim>\<open>"address.name"\<close> string with its one separating \<^verbatim>\<open>'.'\<close>, parsing it
  and joining the two parts with \<^verbatim>\<open>'.'\<close> gives the string back.
\<close>

theorem round_trip:
  "single_separator s \<Longrightarrow> rejoin (split_contract_id s) = Some s"
proof -
  assume "single_separator s"
  then have "count_list s CHR ''.'' = 1" by (simp add: single_separator_def)
  then obtain a n where "js_split CHR ''.'' s = [a, n]" and "a @ CHR ''.'' # n = s"
    using js_split_single by blast
  then show ?thesis
    by (simp add: rejoin_def split_contract_id_def index_def)
qed

theorem round_trip_witness:
  "single_separator ARKADIKO_vaultsManager \<and>
   rejoin (split_contract_id ARKADIKO_vaultsManager) = Some ARKADIKO_vaultsManager"
proof -
  have h: "single_separator ARKADIKO_vaultsManager"
    by (simp add: single_separator_def ARKADIKO_vaultsManager_def)
  from h round_trip [OF h] show ?thesis by simp
qed

text \<open>The round trip holds for no other string: with no \<^verbatim>\<open>'.'\<close> the name is
  \<^verbatim>\<open>undefined\<close>, and with more than one the text after the second is lost.\<close>

lemma round_trip_only_with_single_separator:
  assumes "rejoin (split_contract_id s) = Some s"
  shows "single_separator s"
proof -
  let ?P = "\<lambda>c. c \<noteq> CHR ''.''"
  have second: "index (js_split CHR ''.'' s) 1 =
      (if CHR ''.'' \<in> set s then Some (takeWhile ?P (tl (dropWhile ?P s))) else None)"
    by (rule index_second)
  have first: "index (js_split CHR ''.'' s) 0 = Some (takeWhile ?P s)"
    by (subst js_split_at_first) (simp add: index_def)
  have mem: "CHR ''.'' \<in> set s"
  proof (rule ccontr)
    assume "CHR ''.'' \<notin> set s"
    then have "rejoin (split_contract_id s) = None"
      using first second by (simp add: rejoin_def split_contract_id_def Let_def)
    with assms show False by simp
  qed
  then have "s = takeWhile ?P s @ ''.'' @ takeWhile ?P (tl (dropWhile ?P s))"
    using assms first second by (simp add: rejoin_def split_contract_id_def Let_def)
  then have "count_list s CHR ''.'' =
      count_list (takeWhile ?P s @ ''.'' @ takeWhile ?P (tl (dropWhile ?P s))) CHR ''.''"
    by simp
  also have "\<dots> = 1"
    by (simp add: count_list_takeWhile_neq)
  finally show ?thesis by (simp add: single_separator_def)
qed


section \<open>Runs of the gateway functions\<close>

text \<open>What a run issues, how its promise ends and which settlements its trace holds,
  function by function.\<close>

lemma issued_append: "issued (xs @ ys) = issued xs @ issued ys"
  by (simp add: issued_def)

lemma issued_simps:
  "issued [] = []"
  "issued (Issued c # es) = c # issued es"
  "issued (Invoked k # es) = issued es"
  "issued (Logged l # es) = issued es"
  "issued (LoggedValue label v # es) = issued es"
  "issued (LoggedError l # es) = issued es"
  "issued (Settled s # es) = issued es"
  by (simp_all add: issued_def)

lemma issued_Logged: "issued (map Logged ls) = []"
  by (induction ls) (simp_all add: issued_simps)

lemma settlements_append: "settlements (xs @ ys) = settlements xs @ settlements ys"
  by (simp add: settlements_def)

lemma settlements_simps:
  "settlements [] = []"
  "settlements (Issued c # es) = settlements es"
  "settlements (Invoked k # es) = settlements es"
  "settlements (Logged l # es) = settlements es"
  "settlements (LoggedValue label v # es) = settlements es"
  "settlements (LoggedError l # es) = settlements es"
  "settlements (Settled s # es) = s # settlements es"
  by (simp_all add: settlements_def)

lemma settlements_Logged: "settlements (map Logged ls) = []"
  by (induction ls) (simp_all add: settlements_simps)

lemma call_if_supplied_issued: "issued (fst (call_if_supplied cb x c)) = []"
  by (cases cb) (simp_all add: call_if_supplied_def issued_simps issued_Logged)

lemma call_if_supplied_settlements: "settlements (fst (call_if_supplied cb x c)) = []"
  by (cases cb) (simp_all add: call_if_supplied_def settlements_simps settlements_Logged)

lemma call_if_supplied_returns:
  "snd (call_if_supplied cb x c) = None \<longleftrightarrow> returns_normally cb x"
  by (cases cb) (simp_all add: call_if_supplied_def returns_normally_def split: completion.splits)

lemma then_settle_issued:
  "issued (trace (then_settle earlier cb s)) = issued earlier @ issued (fst cb)"
  by (cases "snd cb") (simp_all add: then_settle_def issued_append issued_simps)

lemma then_settle_promise:
  "promise (then_settle earlier cb s) = (if snd cb = None then s else Pending)"
  by (cases "snd cb") (simp_all add: then_settle_def)

lemma then_settle_settlements:
  "settlements (trace (then_settle earlier cb s)) =
     settlements earlier @ settlements (fst cb) @ (if snd cb = None then [s] else [])"
  by (cases "snd cb") (simp_all add: then_settle_def settlements_append settlements_simps)

lemma awaiting_simps:
  "trace (awaiting earlier) = earlier"
  "promise (awaiting earlier) = Pending"
  "escaped (awaiting earlier) = None"
  by (simp_all add: awaiting_def)

lemma executeContractCall_issued:
  "issued (trace (executeContractCall p agent)) = [openContractCall (contractCallOptions p)]"
proof (cases agent)
  case None
  then show ?thesis by (simp add: executeContractCall_def awaiting_simps issued_simps)
next
  case (Some sig)
  then show ?thesis
    by (cases sig)
      (simp_all add: executeContractCall_def then_settle_issued call_if_supplied_issued issued_simps)
qed

lemma executeContractCall_promise:
  "promise (executeContractCall p agent) =
     (case agent of
        None \<Rightarrow> Pending
      | Some (Approved data) \<Rightarrow>
          if returns_normally (CallParams.onFinish p) data
          then Resolved \<lparr> txId = txId data, txRaw = txRaw data \<rparr> else Pending
      | Some Cancelled \<Rightarrow>
          if returns_normally (CallParams.onCancel p) ()
          then Rejected (Error ''User cancelled transaction'') else Pending)"
  by (simp add: executeContractCall_def awaiting_simps then_settle_promise call_if_supplied_returns
      split: option.splits signal.splits)

lemma executeContractCall_settlements:
  "settlements (trace (executeContractCall p agent)) =
     (case promise (executeContractCall p agent) of Pending \<Rightarrow> [] | settled \<Rightarrow> [settled])"
  by (simp add: executeContractCall_promise)
     (simp add: executeContractCall_def awaiting_simps then_settle_settlements settlements_simps
        call_if_supplied_settlements call_if_supplied_returns
      split: option.splits signal.splits)

lemma transferSTX_issued:
  "issued (trace (transferSTX number_toString p agent)) = [openSTXTransfer (transferOptions number_toString p)]"
proof (cases agent)
  case None
  then show ?thesis by (simp add: transferSTX_def awaiting_simps issued_simps)
next
  case (Some sig)
  then show ?thesis
    by (cases sig)
      (simp_all add: transferSTX_def then_settle_issued call_if_supplied_issued issued_simps)
qed

lemma transferSTX_promise:
  "promise (transferSTX number_toString p agent) =
     (case agent of
        None \<Rightarrow> Pending
      | Some (Approved data) \<Rightarrow>
          if returns_normally (TransferParams.onFinish p) data
          then Resolved \<lparr> txId = txId data, txRaw = txRaw data \<rparr> else Pending
      | Some Cancelled \<Rightarrow>
          if returns_normally (TransferParams.onCancel p) ()
          then Rejected (Error ''User cancelled STX transfer'') else Pending)"
  by (simp add: transferSTX_def awaiting_simps then_settle_promise call_if_supplied_returns
      split: option.splits signal.splits)

lemma transferSTX_settlements:
  "settlements (trace (transferSTX number_toString p agent)) =
     (case promise (transferSTX number_toString p agent) of Pending \<Rightarrow> [] | settled \<Rightarrow> [settled])"
  by (simp add: transferSTX_promise)
     (simp add: transferSTX_def awaiting_simps then_settle_settlements settlements_simps
        call_if_supplied_settlements call_if_supplied_returns
      split: option.splits signal.splits)


lemma connectWallet_promise:
  "promise (connectWallet cfg agent) =
     (case agent of
        None \<Rightarrow> Pending
      | Some (Approved loaded) \<Rightarrow>
          Resolved \<lparr> userAddress = mainnet (stxAddress (profile loaded)), userData = loaded \<rparr>
      | Some Cancelled \<Rightarrow> Rejected (Error ''User cancelled wallet connection''))"
  by (simp add: connectWallet_def Let_def awaiting_simps then_settle_promise
      split: option.splits signal.splits)




lemma thrown_simps:
  "trace (thrown e) = [Settled (Rejected e)]"
  "promise (thrown e) = Rejected e"
  "escaped (thrown e) = None"
  "issued (trace (thrown e)) = []"
  "settlements (trace (thrown e)) = [Rejected e]"
  by (simp_all add: thrown_def issued_simps settlements_simps)


section \<open>The flows\<close>

text \<open>
  A flow first builds its argument object, which calls the library, and then makes one
  call of a gateway function. When the library raises, the flow is rejected with the
  library's error and no gateway function is called.
\<close>

lemma openVault_issued:
  "issued (trace (openVault lib collateralAmount debtAmount userAddr agent)) =
     (case openVault_call lib collateralAmount debtAmount userAddr of
        Inl e \<Rightarrow> []
      | Inr c \<Rightarrow> [openContractCall (contractCallOptions c)])"
  by (simp add: openVault_def thrown_simps issued_simps executeContractCall_issued split: sum.splits)

lemma depositCollateral_issued:
  "issued (trace (depositCollateral lib vaultId amt userAddr agent)) =
     (case depositCollateral_call lib vaultId amt userAddr of
        Inl e \<Rightarrow> []
      | Inr c \<Rightarrow> [openContractCall (contractCallOptions c)])"
  by (simp add: depositCollateral_def thrown_simps issued_simps executeContractCall_issued split: sum.splits)

lemma swapTokens_issued:
  "issued (trace (swapTokens lib tokenX tokenY amountIn minAmountOut userAddr agent)) =
     (case swapTokens_call lib tokenX tokenY amountIn minAmountOut userAddr of
        Inl e \<Rightarrow> []
      | Inr c \<Rightarrow> [openContractCall (contractCallOptions c)])"
  by (simp add: swapTokens_def thrown_simps issued_simps executeContractCall_issued split: sum.splits)

lemma exampleSwapTokens_issued:
  "issued (trace (exampleSwapTokens lib dexContract tokenIn tokenOut amountIn minAmountOut
      userAddr agent)) =
     (case exampleSwapTokens_call lib dexContract tokenIn tokenOut amountIn minAmountOut userAddr of
        Inl e \<Rightarrow> []
      | Inr c \<Rightarrow> [openContractCall (contractCallOptions c)])"
  by (simp add: exampleSwapTokens_def thrown_simps issued_simps executeContractCall_issued split: sum.splits)



text \<open>What a flow puts into the argument object when the library accepts the arguments.\<close>

lemma openVault_call_Inr:
  assumes "openVault_call lib collateralAmount debtAmount userAddr = Inr c"
  shows "\<exists>condition. makeStandardSTXPostCondition lib userAddr LessEqual collateralAmount =
            Inr condition \<and> CallParams.postConditions c = Some [condition]"
    and "returns_normally (CallParams.onCancel c) ()"
    and "returns_normally (CallParams.onFinish c) data"
  using assms
  by (auto simp add: openVault_call_def returns_normally_def split: prod.splits sum.splits)

lemma depositCollateral_call_Inr:
  assumes "depositCollateral_call lib vaultId amt userAddr = Inr c"
  shows "\<exists>condition. makeStandardSTXPostCondition lib userAddr Equal amt = Inr condition \<and>
            CallParams.postConditions c = Some [condition]"
    and "returns_normally (CallParams.onCancel c) ()"
    and "returns_normally (CallParams.onFinish c) data"
  using assms
  by (auto simp add: depositCollateral_call_def returns_normally_def split: prod.splits sum.splits)

lemma exampleSwapTokens_call_Inr:
  assumes "exampleSwapTokens_call lib dexContract tokenIn tokenOut amountIn minAmountOut userAddr
             = Inr c"
  shows "\<exists>condition. makeStandardSTXPostCondition lib userAddr LessEqual amountIn =
            Inr condition \<and> CallParams.postConditions c = Some [condition]"
    and "returns_normally (CallParams.onCancel c) ()"
    and "returns_normally (CallParams.onFinish c) data"
  using assms
  by (auto simp add: exampleSwapTokens_call_def returns_normally_def
      split: prod.splits sum.splits)

lemma swapTokens_call_Inr:
  assumes "swapTokens_call lib tokenX tokenY amountIn minAmountOut userAddr = Inr c"
  shows "CallParams.postConditions c = Some []"
    and "returns_normally (CallParams.onCancel c) ()"
    and "returns_normally (CallParams.onFinish c) data"
  using assms
  by (auto simp add: swapTokens_call_def returns_normally_def split: prod.splits sum.splits)







section \<open>The example user flow\<close>











section \<open>Post-conditions and the mode of a contract call\<close>

text \<open>
  Three of the four flows that debit the user attach one post-condition, on the STX the
  user sends: \<^verbatim>\<open>openVault\<close> and \<^verbatim>\<open>depositCollateral\<close> on the collateral, and \<^verbatim>\<open>exampleSwapTokens\<close> on
  \<^verbatim>\<open>amountIn\<close> (an STX condition whatever the token \<^verbatim>\<open>tokenIn\<close> is). The condition is the one the
  library makes of the user's address, the comparator and the amount.
\<close>

lemma debit_flows_attach_their_condition:
  "openVault_call lib collateralAmount debtAmount userAddr = Inr c \<Longrightarrow>
     \<exists>condition. makeStandardSTXPostCondition lib userAddr LessEqual collateralAmount =
        Inr condition \<and>
      map post_conditions_of
        (issued (trace (openVault lib collateralAmount debtAmount userAddr agent))) =
        [[condition]]"
  "depositCollateral_call lib vaultId amt userAddr = Inr c \<Longrightarrow>
     \<exists>condition. makeStandardSTXPostCondition lib userAddr Equal amt = Inr condition \<and>
      map post_conditions_of (issued (trace (depositCollateral lib vaultId amt userAddr agent))) =
        [[condition]]"
  "exampleSwapTokens_call lib dexContract tokenIn tokenOut amountIn minAmountOut userAddr = Inr c
     \<Longrightarrow>
     \<exists>condition. makeStandardSTXPostCondition lib userAddr LessEqual amountIn = Inr condition \<and>
      map post_conditions_of
        (issued (trace (exampleSwapTokens lib dexContract tokenIn tokenOut amountIn minAmountOut
           userAddr agent))) = [[condition]]"
  using openVault_call_Inr(1) [of lib collateralAmount debtAmount userAddr c]
    depositCollateral_call_Inr(1) [of lib vaultId amt userAddr c]
    exampleSwapTokens_call_Inr(1) [of lib dexContract tokenIn tokenOut amountIn minAmountOut
      userAddr c]
  by (auto simp add: openVault_issued depositCollateral_issued exampleSwapTokens_issued
      contractCallOptions_def or_default_def)

text \<open>
  C1. Every flow that debits the user is to attach a post-condition with comparator
  \<open>LessEqual\<close> or \<open>Equal\<close> that bounds the debit. \<^verbatim>\<open>swapTokens\<close> does not: whatever its
  arguments and whatever the agent answers, the request it issues carries the empty list
  of post-conditions (and when the library refuses an argument it issues no request).
\<close>

theorem swapTokens_attaches_no_post_condition:
  "map post_conditions_of
     (issued (trace (swapTokens lib tokenX tokenY amountIn minAmountOut userAddr agent))) =
     (case swapTokens_call lib tokenX tokenY amountIn minAmountOut userAddr of
        Inl e \<Rightarrow> []
      | Inr c \<Rightarrow> [[]])"
  using swapTokens_call_Inr(1) [of lib tokenX tokenY amountIn minAmountOut userAddr]
  by (simp add: swapTokens_issued contractCallOptions_def or_default_def split: sum.splits)

lemma example_address_c32: "c32_text example_address"
  by (simp add: c32_text_def example_address_def)

lemma swapTokens_example:
  "array_of
     [contractPrincipalCV example_library (Some example_address) (Some ''wrapped-stx-token''),
      contractPrincipalCV example_library (Some example_address) (Some ''usda-token''),
      uintCV example_library 1000000,
      uintCV example_library 1] =
   Inr [ContractPrincipalCV example_address ''wrapped-stx-token'',
        ContractPrincipalCV example_address ''usda-token'', UIntCV 1000000, UIntCV 1]"
  by (simp add: example_library_def example_address_c32)

theorem swapTokens_attaches_no_post_condition_witness:
  "map post_conditions_of
     (issued (trace (swapTokens example_library
        ''SP2C2YFP12AJZB4MABJBAJ55XECVS7E4PMMZ89YZR.wrapped-stx-token''
        ''SP2C2YFP12AJZB4MABJBAJ55XECVS7E4PMMZ89YZR.usda-token''
        1000000 1 example_address None))) = [[]]"
proof -
  have "\<exists>c. swapTokens_call example_library
        ''SP2C2YFP12AJZB4MABJBAJ55XECVS7E4PMMZ89YZR.wrapped-stx-token''
        ''SP2C2YFP12AJZB4MABJBAJ55XECVS7E4PMMZ89YZR.usda-token''
        1000000 1 example_address = Inr c"
    using swapTokens_example
    by (simp add: swapTokens_call_def split_contract_id_def index_def toContract_def toUint_def
        example_address_def ARKADIKO_swap_def)
  then show ?thesis
    using swapTokens_attaches_no_post_condition
      [of example_library "''SP2C2YFP12AJZB4MABJBAJ55XECVS7E4PMMZ89YZR.wrapped-stx-token''"
        "''SP2C2YFP12AJZB4MABJBAJ55XECVS7E4PMMZ89YZR.usda-token''" 1000000 1 example_address None]
    by auto
qed

text \<open>
  With a library that accepts every argument the request is always issued, and it
  carries no post-condition.
\<close>

lemma swapTokens_with_total_library:
  assumes "\<And>v. \<exists>cv. uintCV lib v = Inr cv"
    and "\<And>a n. \<exists>cv. contractPrincipalCV lib a n = Inr cv"
  shows "map post_conditions_of
     (issued (trace (swapTokens lib tokenX tokenY amountIn minAmountOut userAddr agent))) = [[]]"
proof -
  obtain x y where xy: "split_contract_id tokenX = x" "split_contract_id tokenY = y" by simp
  obtain a b c d where
    "toContract lib (fst x) (snd x) = Inr a" "toContract lib (fst y) (snd y) = Inr b"
    "toUint lib amountIn = Inr c" "toUint lib minAmountOut = Inr d"
    using assms by (metis toContract_def toUint_def)
  then have "\<exists>c. swapTokens_call lib tokenX tokenY amountIn minAmountOut userAddr = Inr c"
    using xy by (auto simp add: swapTokens_call_def split: prod.splits)
  then obtain p where p: "swapTokens_call lib tokenX tokenY amountIn minAmountOut userAddr = Inr p"
    by blast
  show ?thesis
    using swapTokens_call_Inr(1) [OF p]
    by (simp add: swapTokens_issued p contractCallOptions_def or_default_def)
qed

text \<open>
  C3. Every request that \<^verbatim>\<open>executeContractCall\<close> submits has the mode \<open>Deny\<close>: the call
  issues exactly the request \<open>contractCallOptions p\<close>, whose mode is \<open>Deny\<close>, and a
  \<^verbatim>\<open>postConditionMode\<close> that the caller puts into the parameters changes nothing of it.
\<close>

theorem postConditionMode_always_Deny:
  "issued (trace (executeContractCall p agent)) = [openContractCall (contractCallOptions p)] \<and>
   ContractCallOptions.postConditionMode (contractCallOptions p) = Deny \<and>
   contractCallOptions (p\<lparr> CallParams.postConditionMode := requested \<rparr>) = contractCallOptions p"
  by (simp add: executeContractCall_issued contractCallOptions_def)

theorem postConditionMode_always_Deny_witness:
  "CallParams.postConditionMode example_call = Some Allow \<and>
   issued (trace (executeContractCall example_call (Some (Approved example_data)))) =
     [openContractCall (contractCallOptions example_call)] \<and>
   ContractCallOptions.postConditionMode (contractCallOptions example_call) = Deny"
  using postConditionMode_always_Deny [of example_call "Some (Approved example_data)"]
  by (simp add: example_call_def)


section \<open>The wallet handshake\<close>

text \<open>
  The session of \<^verbatim>\<open>connectWallet\<close> against a network selection. The function has no
  network parameter; for a user whose two addresses differ, the session's address is not
  the address on the test network.
\<close>

theorem session_address_ignores_network:
  "promise (connectWallet default_config (Some (Approved example_user))) =
     Resolved \<lparr> userAddress = ''SP2C2YFP12AJZB4MABJBAJ55XECVS7E4PMMZ89YZR'',
                userData = example_user \<rparr> \<and>
   address_on StacksTestnet example_user = ''ST2C2YFP12AJZB4MABJBAJ55XECVS7E4PMS0SFXS9'' \<and>
   ''SP2C2YFP12AJZB4MABJBAJ55XECVS7E4PMMZ89YZR'' \<noteq> address_on StacksTestnet example_user"
  by (simp add: connectWallet_promise address_on_def example_user_def)

text \<open>
  C7, as the code has it. For every successful handshake \<^verbatim>\<open>connectWallet\<close> resolves with
  a session whose \<^verbatim>\<open>userAddress\<close> is the user's address on the main network, whichever
  network the application works on, together with the whole user data the wallet loaded.
\<close>

theorem connectWallet_session:
  "promise (connectWallet cfg (Some (Approved loaded))) =
     Resolved \<lparr> userAddress = address_on StacksMainnet loaded, userData = loaded \<rparr>"
  by (simp add: connectWallet_promise address_on_def)

theorem connectWallet_session_witness:
  "promise (connectWallet default_config (Some (Approved example_user))) =
     Resolved \<lparr> userAddress = ''SP2C2YFP12AJZB4MABJBAJ55XECVS7E4PMMZ89YZR'',
                userData = example_user \<rparr>"
  using connectWallet_session [of default_config example_user]
  by (simp add: address_on_def example_user_def)


section \<open>The amount of a transfer\<close>

text \<open>
  The decimal numeral: it consists of digits, reads back as the number, and has no
  leading zero.
\<close>

lemma less_10_cases:
  "d < 10 \<Longrightarrow>
   d = 0 \<or> d = 1 \<or> d = 2 \<or> d = 3 \<or> d = 4 \<or> d = 5 \<or> d = 6 \<or> d = 7 \<or> d = 8 \<or> d = (9::nat)"
  by arith

lemma of_char_digit_char:
  assumes "d < 10"
  shows "of_char (digit_char d) = 48 + d"
  unfolding digit_char_def using less_10_cases [OF assms] by (elim disjE) simp_all

lemma digit_char_value: "d < 10 \<Longrightarrow> digit_value (digit_char d) = d"
  by (simp add: digit_value_def of_char_digit_char)

lemma digit_char_digit: "d < 10 \<Longrightarrow> is_digit (digit_char d)"
  by (simp add: is_digit_def of_char_digit_char)

lemma decimal_value_snoc:
  "decimal_value (ds @ [c]) = 10 * decimal_value ds + digit_value c"
  by (simp add: decimal_value_def)

lemma decimal_value_single: "decimal_value [c] = digit_value c"
  by (simp add: decimal_value_def)

lemma decimal_value_decimal: "decimal_value (decimal n) = n"
proof (induction n rule: decimal.induct)
  case (1 n)
  show ?case
  proof (cases "n < 10")
    case True
    then show ?thesis
      by (subst decimal.simps) (simp add: decimal_value_single digit_char_value)
  next
    case False
    then have "decimal_value (decimal (n div 10)) = n div 10" using "1.IH" by simp
    with False show ?thesis
      by (subst decimal.simps) (simp add: decimal_value_snoc digit_char_value)
  qed
qed

lemma decimal_digits: "list_all is_digit (decimal n)"
proof (induction n rule: decimal.induct)
  case (1 n)
  show ?case
  proof (cases "n < 10")
    case True
    then show ?thesis
      using digit_char_digit [of n] by (subst decimal.simps) simp
  next
    case False
    then have "list_all is_digit (decimal (n div 10))" using "1.IH" by simp
    moreover have "is_digit (digit_char (n mod 10))"
      by (rule digit_char_digit) simp
    ultimately show ?thesis using False
      by (subst decimal.simps) simp
  qed
qed


lemma decimal_not_Nil: "decimal n \<noteq> []"
  by (subst decimal.simps) simp

lemma decimal_no_leading_zero: "0 < n \<Longrightarrow> hd (decimal n) \<noteq> CHR ''0''"
proof (induction n rule: decimal.induct)
  case (1 n)
  show ?case
  proof (cases "n < 10")
    case True
    have "of_char (digit_char n) = 48 + n" using True by (rule of_char_digit_char)
    moreover have "(of_char (CHR ''0'') :: nat) = 48" by simp
    ultimately have "digit_char n \<noteq> CHR ''0''" using "1.prems" by auto
    with True show ?thesis by (subst decimal.simps) simp
  next
    case False
    then have "0 < n div 10" by simp
    with False have "hd (decimal (n div 10)) \<noteq> CHR ''0''" using "1.IH" by simp
    with False show ?thesis
      by (subst decimal.simps) (simp add: decimal_not_Nil)
  qed
qed

text \<open>
  C9. For every amount, a number or a string, the request that \<^verbatim>\<open>transferSTX\<close> hands to
  the signer carries the string \<^verbatim>\<open>amount.toString()\<close>, never a number: a string amount is
  passed on as it is, and a number amount as what \<^verbatim>\<open>Number.prototype.toString\<close> prints for it.
  Where \<^verbatim>\<open>Number.prototype.toString\<close> prints the safe integers as the language defines it, the
  amount of a safe integer is its decimal numeral: digits that read back as the number,
  without a leading zero, after a minus sign for a negative number.
\<close>

theorem transfer_amount_is_string:
  "issued (trace (transferSTX number_toString p agent)) =
     [openSTXTransfer (transferOptions number_toString p)] \<and>
   (TransferParams.amount p = JSString s \<longrightarrow>
      STXTransferOptions.amount (transferOptions number_toString p) = JSString s) \<and>
   (TransferParams.amount p = JSNumber x \<longrightarrow>
      STXTransferOptions.amount (transferOptions number_toString p) =
        JSString (number_toString x)) \<and>
   STXTransferOptions.amount (transferOptions number_toString p) \<noteq> JSNumber y \<and>
   (prints_safe_integers print \<and> safe_integer n \<and> TransferParams.amount q = JSNumber n \<longrightarrow>
      STXTransferOptions.amount (transferOptions print q) = JSString (integer_numeral n)) \<and>
   (0 \<le> n \<longrightarrow>
      list_all is_digit (integer_numeral n) \<and> decimal_value (integer_numeral n) = nat n) \<and>
   (0 < n \<longrightarrow> hd (integer_numeral n) \<noteq> CHR ''0'') \<and>
   (n < 0 \<longrightarrow> integer_numeral n = CHR ''-'' # integer_numeral (- n))"
proof (intro conjI impI)
  show "issued (trace (transferSTX number_toString p agent)) =
      [openSTXTransfer (transferOptions number_toString p)]"
    by (rule transferSTX_issued)
  show "STXTransferOptions.amount (transferOptions number_toString p) = JSString s"
    if "TransferParams.amount p = JSString s"
    using that by (simp add: transferOptions_def)
  show "STXTransferOptions.amount (transferOptions number_toString p) =
      JSString (number_toString x)" if "TransferParams.amount p = JSNumber x"
    using that by (simp add: transferOptions_def)
  show "STXTransferOptions.amount (transferOptions number_toString p) \<noteq> JSNumber y"
    by (simp add: transferOptions_def)
  show "STXTransferOptions.amount (transferOptions print q) = JSString (integer_numeral n)"
    if "prints_safe_integers print \<and> safe_integer n \<and> TransferParams.amount q = JSNumber n"
    using that by (simp add: transferOptions_def prints_safe_integers_def)
  show "list_all is_digit (integer_numeral n)" if "0 \<le> n"
    using that by (simp add: integer_numeral_def decimal_digits)
  show "decimal_value (integer_numeral n) = nat n" if "0 \<le> n"
    using that by (simp add: integer_numeral_def decimal_value_decimal)
  show "hd (integer_numeral n) \<noteq> CHR ''0''" if "0 < n"
    using that by (simp add: integer_numeral_def decimal_no_leading_zero)
  show "integer_numeral n = CHR ''-'' # integer_numeral (- n)" if "n < 0"
    using that by (simp add: integer_numeral_def)
qed

lemma integer_numeral_examples:
  "integer_numeral 2500000 = ''2500000''"
  "integer_numeral (- 42) = ''-42''"
  "integer_numeral 42 = ''42''"
  by (simp_all add: integer_numeral_def decimal.simps digit_char_def)

theorem transfer_amount_is_string_witness:
  "prints_safe_integers integer_numeral \<and> safe_integer 2500000 \<and> safe_integer (- 42) \<and>
   STXTransferOptions.amount (transferOptions integer_numeral example_transfer) =
     JSString ''2500000'' \<and>
   STXTransferOptions.amount (transferOptions integer_numeral negative_transfer) =
     JSString ''-42'' \<and>
   STXTransferOptions.amount (transferOptions integer_numeral string_transfer) =
     JSString ''0x1f'' \<and>
   list_all is_digit ''2500000'' \<and> decimal_value ''2500000'' = 2500000"
proof -
  have a: "prints_safe_integers integer_numeral"
    by (simp add: prints_safe_integers_def)
  have b: "safe_integer 2500000" "safe_integer (- 42)"
    by (simp_all add: safe_integer_def)
  have c: "TransferParams.amount example_transfer = JSNumber 2500000"
    "TransferParams.amount negative_transfer = JSNumber (- 42)"
    "TransferParams.amount string_transfer = JSString ''0x1f''"
    by (simp_all add: example_transfer_def negative_transfer_def string_transfer_def)
  show ?thesis
    using a b c integer_numeral_examples
      transfer_amount_is_string
        [where print = integer_numeral and n = 2500000 and q = example_transfer
           and p = string_transfer and s = "''0x1f''" and number_toString = integer_numeral]
      transfer_amount_is_string
        [where print = integer_numeral and n = "- 42" and q = negative_transfer
           and p = string_transfer and s = "''0x1f''" and number_toString = integer_numeral]
    by simp
qed


section \<open>Approval, cancellation and the caller's callbacks\<close>




text \<open>
  The error of a cancellation is the generic \<^verbatim>\<open>Error\<close>: its name is \<^verbatim>\<open>"Error"\<close>, the name
  of every other \<^verbatim>\<open>new Error(...)\<close>, and not \<^verbatim>\<open>"UserCancelledError"\<close>. When the caller's
  \<^verbatim>\<open>onCancel\<close> throws, the call does not fail at all: its promise stays pending.
\<close>

theorem cancellation_error_is_generic:
  "promise (executeContractCall example_call (Some Cancelled)) =
     Rejected (Error ''User cancelled transaction'') \<and>
   JsError.name (Error ''User cancelled transaction'') = ''Error'' \<and>
   JsError.name (Error ''User cancelled transaction'') \<noteq> ''UserCancelledError'' \<and>
   JsError.name (Error ''User cancelled transaction'') = JsError.name (Error ''callback failed'') \<and>
   promise (executeContractCall call_with_throwing_onCancel
      (Some Cancelled)) = Pending"
  by (simp add: executeContractCall_promise returns_normally_def example_call_def Error_def
      throwing_callback_def call_with_throwing_onCancel_def)

text \<open>
  C2, as the code has it. When the agent cancels, \<^verbatim>\<open>connectWallet\<close> rejects with
  \<^verbatim>\<open>new Error('User cancelled wallet connection')\<close>, and \<^verbatim>\<open>executeContractCall\<close> and
  \<^verbatim>\<open>transferSTX\<close>, provided the caller's \<^verbatim>\<open>onCancel\<close> (if one was supplied) returns, reject
  with \<^verbatim>\<open>new Error('User cancelled transaction')\<close> and
  \<^verbatim>\<open>new Error('User cancelled STX transfer')\<close>; the rejection is the only settlement, so no
  partial result comes with it. The error is of the generic kind \<^verbatim>\<open>Error\<close>; its message
  is what tells it from other errors.
\<close>

theorem cancellation_rejects_with_plain_Error:
  "promise (connectWallet cfg (Some Cancelled) :: ('n, ConnectionSession) run) =
     Rejected (Error ''User cancelled wallet connection'') \<and>
   (returns_normally (CallParams.onCancel p) () \<longrightarrow>
      promise (executeContractCall p (Some Cancelled)) =
        Rejected (Error ''User cancelled transaction'') \<and>
      settlements (trace (executeContractCall p (Some Cancelled))) =
        [Rejected (Error ''User cancelled transaction'')]) \<and>
   (returns_normally (TransferParams.onCancel t) () \<longrightarrow>
      promise (transferSTX number_toString t (Some Cancelled)) =
        Rejected (Error ''User cancelled STX transfer'') \<and>
      settlements (trace (transferSTX number_toString t (Some Cancelled))) =
        [Rejected (Error ''User cancelled STX transfer'')]) \<and>
   JsError.name (Error msg) = ''Error''"
  for p :: "'n CallParams"
  by (simp add: connectWallet_promise executeContractCall_settlements transferSTX_settlements
      executeContractCall_promise transferSTX_promise Error_def)

theorem cancellation_rejects_with_plain_Error_witness:
  "returns_normally (CallParams.onCancel example_call) () \<and>
   returns_normally (TransferParams.onCancel example_transfer) () \<and>
   promise (connectWallet default_config (Some Cancelled) :: (int, ConnectionSession) run) =
     Rejected \<lparr> JsError.name = ''Error'', message = ''User cancelled wallet connection'' \<rparr> \<and>
   promise (executeContractCall example_call (Some Cancelled)) =
     Rejected \<lparr> JsError.name = ''Error'', message = ''User cancelled transaction'' \<rparr> \<and>
   promise (transferSTX integer_numeral example_transfer (Some Cancelled)) =
     Rejected \<lparr> JsError.name = ''Error'', message = ''User cancelled STX transfer'' \<rparr>"
proof -
  have a: "returns_normally (CallParams.onCancel example_call) ()"
    by (simp add: returns_normally_def example_call_def)
  have b: "returns_normally (TransferParams.onCancel example_transfer) ()"
    by (simp add: returns_normally_def example_transfer_def)
  show ?thesis
    using a b cancellation_rejects_with_plain_Error [of default_config example_call example_transfer integer_numeral]
    by (simp add: Error_def)
qed


section \<open>One request for each call\<close>








section \<open>Callbacks and settlement\<close>





end
